theory Spec2Isabelle
  imports Main
begin

section \<open>Data model\<close>

text \<open>
  A Go \<open>error\<close> value carries a message; the \<open>nil\<close> error is \<open>None\<close> of
  \<open>error option\<close>, and a function returning \<open>(T, error)\<close> returns \<open>error + T\<close>.
\<close>

datatype error = Error string

text \<open>
  Modelled from the spec: the declaration of \<open>JwtClaim\<close> is not in handlers.go, which
  only reads its field \<open>Admin\<close>. Section 3 of the specification gives the decoded payload
  the fields admin, expiry and issuedSubject.
\<close>

record JwtClaim =
  Admin :: bool
  expiry :: int
  issuedSubject :: string

text \<open>
  The parts of \<open>*http.Request\<close> that carry credentials: the cookies, the query
  arguments of the URL and the header fields, each as name/value pairs in order.
\<close>

record request =
  Cookies :: "(string \<times> string) list"
  URL_Query :: "(string \<times> string) list"
  Header :: "(string \<times> string) list"

definition cookieName :: string where
  "cookieName = ''statping_auth''"

text \<open>
  handlers.go calls four helpers of its package that are defined in other files:
  \<open>hasSetupEnv()\<close>, \<open>hasAPIQuery(r)\<close>, \<open>hasAuthorizationHeader(r)\<close> and
  \<open>getJwtToken(r)\<close>, and the method \<open>Valid()\<close> of a claim. They are parameters of
  the model, collected in one record; the type of requests is left open.
\<close>

record 'r auth_env =
  hasSetupEnv :: bool
  hasAPIQuery :: "'r \<Rightarrow> bool"
  hasAuthorizationHeader :: "'r \<Rightarrow> bool"
  getJwtToken :: "'r \<Rightarrow> error + JwtClaim"
  Valid :: "JwtClaim \<Rightarrow> error option"

text \<open>
  Modelled from the spec: \<open>getJwtToken\<close> is not in handlers.go. Section 4.1, step 4:
  the signed token is extracted from the cookie named \<open>statping_auth\<close>; when it decodes
  and verifies, the claim is returned, otherwise the call fails. Decoding and verifying
  (the JWT library) is the parameter \<open>parse\<close>; a request without that cookie yields the
  error of \<open>http.ErrNoCookie\<close>.
\<close>

definition getJwtToken_spec :: "(string \<Rightarrow> error + JwtClaim) \<Rightarrow> request \<Rightarrow> error + JwtClaim" where
  "getJwtToken_spec parse r =
     (case map_of (Cookies r) cookieName of
        None \<Rightarrow> Inl (Error ''http: named cookie not present'')
      | Some tknStr \<Rightarrow> parse tknStr)"

section \<open>Auth resolver\<close>

text \<open>\<open>IsFullAuthenticated\<close>, handlers.go lines 82-97.\<close>

definition IsFullAuthenticated :: "'r auth_env \<Rightarrow> 'r \<Rightarrow> bool" where
  "IsFullAuthenticated e r =
     (if hasSetupEnv e then True
      else if hasAPIQuery e r then True
      else if hasAuthorizationHeader e r then True
      else (case getJwtToken e r of
              Inl err \<Rightarrow> False
            | Inr claim \<Rightarrow> Admin claim))"

text \<open>\<open>IsReadAuthenticated\<close>, handlers.go lines 67-78.\<close>

definition IsReadAuthenticated :: "'r auth_env \<Rightarrow> 'r \<Rightarrow> bool" where
  "IsReadAuthenticated e r =
     (if hasSetupEnv e then True
      else if hasAPIQuery e r then True
      else if hasAuthorizationHeader e r then True
      else IsFullAuthenticated e r)"

text \<open>\<open>ScopeName\<close>, handlers.go lines 101-116.\<close>

definition ScopeName :: "'r auth_env \<Rightarrow> 'r \<Rightarrow> string" where
  "ScopeName e r =
     (if hasAPIQuery e r then ''admin''
      else if hasAuthorizationHeader e r then ''admin''
      else (case getJwtToken e r of
              Inl err \<Rightarrow> ''''
            | Inr claim \<Rightarrow> if Admin claim then ''admin'' else ''user''))"

text \<open>\<open>IsAdmin\<close>, handlers.go lines 119-125.\<close>

definition IsAdmin :: "'r auth_env \<Rightarrow> 'r \<Rightarrow> bool" where
  "IsAdmin e r =
     (case getJwtToken e r of
        Inl err \<Rightarrow> False
      | Inr claim \<Rightarrow> Admin claim)"

text \<open>\<open>IsUser\<close>, handlers.go lines 128-140.\<close>

definition IsUser :: "'r auth_env \<Rightarrow> 'r \<Rightarrow> bool" where
  "IsUser e r =
     (if hasSetupEnv e then True
      else (case getJwtToken e r of
              Inl err \<Rightarrow> False
            | Inr tk \<Rightarrow> (case Valid e tk of
                           Some err \<Rightarrow> False
                         | None \<Rightarrow> True)))"

section \<open>Server bootstrapper\<close>

text \<open>
  \<open>fmt.Sprintf("%v", n)\<close> for an integer: its decimal digits, with a minus sign when
  negative.
\<close>

definition digit_char :: "nat \<Rightarrow> char" where
  "digit_char d = ''0123456789'' ! d"

fun digits_of_nat :: "nat \<Rightarrow> string" where
  "digits_of_nat n =
     (if n < 10 then [digit_char n]
      else digits_of_nat (n div 10) @ [digit_char (n mod 10)])"

declare digits_of_nat.simps [simp del]

definition string_of_int :: "int \<Rightarrow> string" where
  "string_of_int i = (if i < 0 then CHR ''-'' # digits_of_nat (nat (- i)) else digits_of_nat (nat i))"

text \<open>
  Everything \<open>RunHTTPServer\<close> and \<open>StopHTTPServer\<close> do to the outside is a call of a
  function defined elsewhere: the logger, the filesystem probe, the router constructor,
  \<open>resetCookies\<close> and the three functions that start a listener. The model records each
  call, in order, with its arguments. None of the called functions is taken to assign
  \<open>usingSSL\<close>, which handlers.go alone writes (line 49) and reads (lines 59, 169, 225).
\<close>

datatype call =
    Call_Infoln string
  | Call_FileExists string
  | Call_Router
  | Call_resetCookies
  | Call_startLetsEncryptServer string
  | Call_startSSLServer string
  | Call_startServer string

text \<open>The Go type \<open>http.Server\<close>, reduced to the address it is bound to.\<close>

record http_server =
  Addr :: string

text \<open>
  The package-level variables of handlers.go (lines 23-29) that change at run time, and
  the calls made so far. At process start \<open>httpServer\<close> is \<open>nil\<close> and \<open>usingSSL\<close> is
  \<open>false\<close>.
\<close>

record server_state =
  jwtKey :: string
  httpServer :: "http_server option"
  usingSSL :: bool
  calls :: "call list"

text \<open>
  What the bootstrapper reads: the configuration \<open>utils.Params\<close> with its three typed
  getters, \<open>utils.Directory\<close>, the package variable \<open>basePath\<close>, and the answers of
  \<open>utils.FileExists\<close>.

  Modelled from the spec: \<open>startLetsEncryptServer\<close>, \<open>startSSLServer\<close> and
  \<open>startServer\<close> are not in handlers.go. Section 4.2, step 5 and section 7(c): each
  starts the listener of its transport mode on the given address and returns the error
  with which that listener failed to bind or serve, \<open>nil\<close> when it did not fail. The
  outcome per address is a field of the environment.
\<close>

record server_env =
  GetBool :: "string \<Rightarrow> bool"
  GetString :: "string \<Rightarrow> string"
  GetInt :: "string \<Rightarrow> int"
  Directory :: string
  basePath :: string
  FileExists :: "string \<Rightarrow> bool"
  startLetsEncryptServer :: "string \<Rightarrow> error option"
  startSSLServer :: "string \<Rightarrow> error option"
  startServer :: "string \<Rightarrow> error option"

definition record_call :: "call \<Rightarrow> server_state \<Rightarrow> server_state" where
  "record_call c s = s\<lparr>calls := calls s @ [c]\<rparr>"

text \<open>\<open>StopHTTPServer\<close>, handlers.go lines 31-33.\<close>

definition StopHTTPServer :: "error option \<Rightarrow> server_state \<Rightarrow> server_state" where
  "StopHTTPServer err s = record_call (Call_Infoln ''Stopping HTTP Server'') s"

text \<open>\<open>RunHTTPServer\<close>, handlers.go lines 36-64.\<close>

definition RunHTTPServer :: "server_env \<Rightarrow> server_state \<Rightarrow> error option \<times> server_state" where
  "RunHTTPServer e s =
     (if GetBool e ''DISABLE_HTTP'' then (None, s)
      else
        let ip = GetString e ''SERVER_IP'';
            host = ip @ '':'' @ string_of_int (GetInt e ''SERVER_PORT'');
            key = FileExists e (Directory e @ ''/server.key'');
            s1 = record_call (Call_FileExists (Directory e @ ''/server.key'')) s;
            cert = FileExists e (Directory e @ ''/server.crt'');
            s2 = record_call (Call_FileExists (Directory e @ ''/server.crt'')) s1;
            s3 = (if key \<and> cert then
                    (record_call (Call_Infoln (''Statping Secure HTTPS Server running on https://''
                        @ ip @ '':'' @ string_of_int 443))
                      (record_call (Call_Infoln
                        ''server.cert and server.key was found in root directory! Starting in SSL mode.'') s2))
                    \<lparr>usingSSL := True\<rparr>
                  else
                    record_call (Call_Infoln (''Statping HTTP Server running on http://''
                        @ host @ basePath e)) s2);
            s4 = record_call Call_Router s3;
            s5 = record_call Call_resetCookies s4
        in
          if GetBool e ''LETSENCRYPT_ENABLE'' then
            (startLetsEncryptServer e ip, record_call (Call_startLetsEncryptServer ip) s5)
          else if usingSSL s5 then
            (startSSLServer e ip, record_call (Call_startSSLServer ip) s5)
          else
            (startServer e host, record_call (Call_startServer host) s5))"

text \<open>
  The transport modes of section 3 of the specification, and the mode each listener
  start stands for.
\<close>

datatype transport_mode = Plain | StaticTLS | AutoTLS

fun mode_of_call :: "call \<Rightarrow> transport_mode option" where
  "mode_of_call (Call_startLetsEncryptServer ip) = Some AutoTLS"
| "mode_of_call (Call_startSSLServer ip) = Some StaticTLS"
| "mode_of_call (Call_startServer host) = Some Plain"
| "mode_of_call c = None"

definition started_modes :: "call list \<Rightarrow> transport_mode list" where
  "started_modes cs = List.map_filter mode_of_call cs"

text \<open>The error, if any, with which the listener started by a call failed.\<close>

fun listener_error :: "server_env \<Rightarrow> call \<Rightarrow> error option" where
  "listener_error e (Call_startLetsEncryptServer ip) = startLetsEncryptServer e ip"
| "listener_error e (Call_startSSLServer ip) = startSSLServer e ip"
| "listener_error e (Call_startServer host) = startServer e host"
| "listener_error e c = None"

section \<open>Token verification\<close>









section \<open>Concrete requests and environments\<close>

text \<open>
  A small deployment used to evaluate the model: the API secret is \<open>s3cret\<close>, two
  session tokens verify (one of an administrator, one of an ordinary user) and every
  other cookie value fails verification.
\<close>

definition admin_claim :: JwtClaim where
  "admin_claim = \<lparr>Admin = True, expiry = 4102444800, issuedSubject = ''admin''\<rparr>"

definition user_claim :: JwtClaim where
  "user_claim = \<lparr>Admin = False, expiry = 4102444800, issuedSubject = ''visitor''\<rparr>"

definition example_parse :: "string \<Rightarrow> error + JwtClaim" where
  "example_parse tknStr =
     (if tknStr = ''hdr.admin.sig'' then Inr admin_claim
      else if tknStr = ''hdr.user.sig'' then Inr user_claim
      else Inl (Error ''signature is invalid''))"

definition example_env :: "bool \<Rightarrow> request auth_env" where
  "example_env setup =
     \<lparr>hasSetupEnv = setup,
      hasAPIQuery = (\<lambda>r. map_of (URL_Query r) ''api'' = Some ''s3cret''),
      hasAuthorizationHeader = (\<lambda>r. map_of (Header r) ''Authorization'' = Some ''s3cret''),
      getJwtToken = getJwtToken_spec example_parse,
      Valid = (\<lambda>c. if expiry c < 1793500000 then Some (Error ''token is expired'') else None)\<rparr>"

definition cookie_request :: "string \<Rightarrow> request" where
  "cookie_request tknStr = \<lparr>Cookies = [(cookieName, tknStr)], URL_Query = [], Header = []\<rparr>"

definition bare_request :: request where
  "bare_request = \<lparr>Cookies = [], URL_Query = [], Header = []\<rparr>"

definition example_server_env :: "bool \<Rightarrow> bool \<Rightarrow> string list \<Rightarrow> server_env" where
  "example_server_env disable autotls files =
     \<lparr>GetBool = (\<lambda>k. if k = ''DISABLE_HTTP'' then disable
                    else if k = ''LETSENCRYPT_ENABLE'' then autotls else False),
      GetString = (\<lambda>k. if k = ''SERVER_IP'' then ''0.0.0.0'' else []),
      GetInt = (\<lambda>k. if k = ''SERVER_PORT'' then 8080 else 0),
      Directory = ''/app'',
      basePath = ''/'',
      FileExists = (\<lambda>p. p \<in> set files),
      startLetsEncryptServer = (\<lambda>ip. None),
      startSSLServer = (\<lambda>ip. None),
      startServer = (\<lambda>host. if host = ''0.0.0.0:8080''
                            then Some (Error ''bind: address already in use'') else None)\<rparr>"

definition fresh_state :: server_state where
  "fresh_state = \<lparr>jwtKey = [], httpServer = None, usingSSL = False, calls = []\<rparr>"

definition serving_state :: server_state where
  "serving_state =
     \<lparr>jwtKey = ''0f3a'', httpServer = Some \<lparr>Addr = ''0.0.0.0:8080''\<rparr>, usingSSL = False,
      calls = [Call_Router, Call_resetCookies, Call_startServer ''0.0.0.0:8080'']\<rparr>"















lemmas example_auth_defs =
  example_env_def example_parse_def cookie_request_def bare_request_def
  getJwtToken_spec_def admin_claim_def user_claim_def cookieName_def

section \<open>Evaluation lemmas\<close>

lemma string_of_int_8080: "string_of_int 8080 = ''8080''"
  by (simp add: string_of_int_def digits_of_nat.simps digit_char_def)

lemma string_of_int_443: "string_of_int 443 = ''443''"
  by (simp add: string_of_int_def digits_of_nat.simps digit_char_def)

lemma started_modes_append: "started_modes (cs @ ds) = started_modes cs @ started_modes ds"
  by (simp add: started_modes_def map_filter_def)

lemma started_modes_Nil: "started_modes [] = []"
  by (simp add: started_modes_def map_filter_def)

lemma started_modes_Cons:
  "started_modes (c # cs) = (case mode_of_call c of None \<Rightarrow> started_modes cs | Some m \<Rightarrow> m # started_modes cs)"
  by (simp add: started_modes_def map_filter_def split: option.splits)

















section \<open>Properties of the auth resolver\<close>

text \<open>
  C1 (as amended). A request whose session token verifies with the admin claim false,
  with no API key, no Authorization-header credential and setup mode off: \<open>IsAdmin\<close> is
  false and \<open>ScopeName\<close> is \<open>user\<close>; \<open>IsFullAuthenticated\<close> returns the admin flag of
  the claim, so it is false, and \<open>IsReadAuthenticated\<close>, which falls through to it, is
  false too.
\<close>

theorem user_token_queries:
  assumes "\<not> hasSetupEnv e" and "\<not> hasAPIQuery e r" and "\<not> hasAuthorizationHeader e r"
    and "getJwtToken e r = Inr claim" and "\<not> Admin claim"
  shows "\<not> IsAdmin e r \<and> ScopeName e r = ''user''
    \<and> \<not> IsFullAuthenticated e r \<and> \<not> IsReadAuthenticated e r"
  using assms
  by (simp add: IsAdmin_def ScopeName_def IsFullAuthenticated_def IsReadAuthenticated_def)

theorem user_token_queries_witness:
  "\<not> hasSetupEnv (example_env False)
   \<and> \<not> hasAPIQuery (example_env False) (cookie_request ''hdr.user.sig'')
   \<and> \<not> hasAuthorizationHeader (example_env False) (cookie_request ''hdr.user.sig'')
   \<and> getJwtToken (example_env False) (cookie_request ''hdr.user.sig'') = Inr user_claim
   \<and> \<not> Admin user_claim
   \<and> \<not> IsAdmin (example_env False) (cookie_request ''hdr.user.sig'')
   \<and> ScopeName (example_env False) (cookie_request ''hdr.user.sig'') = ''user''
   \<and> \<not> IsFullAuthenticated (example_env False) (cookie_request ''hdr.user.sig'')
   \<and> \<not> IsReadAuthenticated (example_env False) (cookie_request ''hdr.user.sig'')"
proof -
  have h1: "\<not> hasSetupEnv (example_env False)"
    by (simp add: example_env_def)
  have h2: "\<not> hasAPIQuery (example_env False) (cookie_request ''hdr.user.sig'')"
    by (simp add: example_env_def cookie_request_def)
  have h3: "\<not> hasAuthorizationHeader (example_env False) (cookie_request ''hdr.user.sig'')"
    by (simp add: example_env_def cookie_request_def)
  have h4: "getJwtToken (example_env False) (cookie_request ''hdr.user.sig'') = Inr user_claim"
    by (simp add: example_env_def cookie_request_def getJwtToken_spec_def example_parse_def)
  have h5: "\<not> Admin user_claim"
    by (simp add: user_claim_def)
  from user_token_queries [OF h1 h2 h3 h4 h5] h1 h2 h3 h4 h5 show ?thesis
    by simp
qed

text \<open>
  C1 as stated fails: for the request above, which satisfies every condition of the
  claim, \<open>IsFullAuthenticated\<close> and \<open>IsReadAuthenticated\<close> return false.
\<close>

theorem user_token_full_auth_counterexample:
  "\<not> hasSetupEnv (example_env False)
   \<and> \<not> hasAPIQuery (example_env False) (cookie_request ''hdr.user.sig'')
   \<and> \<not> hasAuthorizationHeader (example_env False) (cookie_request ''hdr.user.sig'')
   \<and> getJwtToken (example_env False) (cookie_request ''hdr.user.sig'') = Inr user_claim
   \<and> \<not> Admin user_claim
   \<and> \<not> IsFullAuthenticated (example_env False) (cookie_request ''hdr.user.sig'')
   \<and> \<not> IsReadAuthenticated (example_env False) (cookie_request ''hdr.user.sig'')"
  by (simp add: example_auth_defs IsFullAuthenticated_def IsReadAuthenticated_def)


section \<open>Properties of the setup bypass and of failing tokens\<close>

text \<open>
  C2. With the setup-mode bypass active, \<open>IsReadAuthenticated\<close>, \<open>IsFullAuthenticated\<close>
  and \<open>IsUser\<close> are true for every request, whatever it carries. The bypass does not
  make \<open>IsAdmin\<close> true: \<open>IsAdmin\<close> is true exactly when the request carries a token
  that verifies and has the admin claim.
\<close>

theorem setup_bypass_queries:
  assumes "hasSetupEnv e"
  shows "IsReadAuthenticated e r \<and> IsFullAuthenticated e r \<and> IsUser e r
    \<and> (IsAdmin e r = (\<exists>claim. getJwtToken e r = Inr claim \<and> Admin claim))"
  using assms
  by (simp add: IsReadAuthenticated_def IsFullAuthenticated_def IsUser_def IsAdmin_def
      split: sum.splits)

theorem setup_bypass_queries_witness:
  "hasSetupEnv (example_env True)
   \<and> IsReadAuthenticated (example_env True) bare_request
   \<and> IsFullAuthenticated (example_env True) bare_request
   \<and> IsUser (example_env True) bare_request
   \<and> \<not> IsAdmin (example_env True) bare_request
   \<and> IsAdmin (example_env True) (cookie_request ''hdr.admin.sig'')"
proof -
  have h: "hasSetupEnv (example_env True)"
    by (simp add: example_env_def)
  have t: "getJwtToken (example_env True) (cookie_request ''hdr.admin.sig'') = Inr admin_claim"
    by (simp add: example_env_def cookie_request_def getJwtToken_spec_def example_parse_def)
  have n: "getJwtToken (example_env True) bare_request = Inl (Error ''http: named cookie not present'')"
    by (simp add: example_env_def bare_request_def getJwtToken_spec_def)
  have a: "Admin admin_claim"
    by (simp add: admin_claim_def)
  from setup_bypass_queries [OF h, of bare_request]
    setup_bypass_queries [OF h, of "cookie_request ''hdr.admin.sig''"] h t n a
  show ?thesis
    by simp
qed




text \<open>
  C5. For a request whose token verifies with the admin claim true, the four queries
  agree, whatever else the request carries and whether or not setup mode is on:
  \<open>IsAdmin\<close>, \<open>IsFullAuthenticated\<close> and \<open>IsReadAuthenticated\<close> are true and
  \<open>ScopeName\<close> is \<open>admin\<close>.
\<close>

theorem admin_token_queries:
  assumes "getJwtToken e r = Inr claim" and "Admin claim"
  shows "IsAdmin e r \<and> IsFullAuthenticated e r \<and> IsReadAuthenticated e r
    \<and> ScopeName e r = ''admin''"
  using assms
  by (simp add: IsAdmin_def IsFullAuthenticated_def IsReadAuthenticated_def ScopeName_def)

theorem admin_token_queries_witness:
  "getJwtToken (example_env False) (cookie_request ''hdr.admin.sig'') = Inr admin_claim
   \<and> Admin admin_claim
   \<and> IsAdmin (example_env False) (cookie_request ''hdr.admin.sig'')
   \<and> IsFullAuthenticated (example_env False) (cookie_request ''hdr.admin.sig'')
   \<and> IsReadAuthenticated (example_env False) (cookie_request ''hdr.admin.sig'')
   \<and> ScopeName (example_env False) (cookie_request ''hdr.admin.sig'') = ''admin''"
proof -
  have t: "getJwtToken (example_env False) (cookie_request ''hdr.admin.sig'') = Inr admin_claim"
    by (simp add: example_env_def cookie_request_def getJwtToken_spec_def example_parse_def)
  have a: "Admin admin_claim"
    by (simp add: admin_claim_def)
  from admin_token_queries [OF t a] t a show ?thesis
    by simp
qed

text \<open>
  C6. A request without the session cookie \<open>statping_auth\<close>, without an
  Authorization-header credential and without an API key, with setup mode off:
  \<open>IsReadAuthenticated\<close>, \<open>IsFullAuthenticated\<close>, \<open>IsAdmin\<close> and \<open>IsUser\<close> are false
  and \<open>ScopeName\<close> is the empty string. The token is looked up as the specification
  describes \<open>getJwtToken\<close>, for any decoder.
\<close>

theorem no_credentials_queries:
  assumes "getJwtToken e = getJwtToken_spec parse"
    and "map_of (Cookies r) cookieName = None"
    and "\<not> hasAuthorizationHeader e r" and "\<not> hasAPIQuery e r" and "\<not> hasSetupEnv e"
  shows "\<not> IsReadAuthenticated e r \<and> \<not> IsFullAuthenticated e r \<and> \<not> IsAdmin e r
    \<and> \<not> IsUser e r \<and> ScopeName e r = ''''"
  using assms
  by (simp add: IsReadAuthenticated_def IsFullAuthenticated_def IsAdmin_def IsUser_def
      ScopeName_def getJwtToken_spec_def)

theorem no_credentials_queries_witness:
  "getJwtToken (example_env False) = getJwtToken_spec example_parse
   \<and> map_of (Cookies bare_request) cookieName = None
   \<and> \<not> hasAuthorizationHeader (example_env False) bare_request
   \<and> \<not> hasAPIQuery (example_env False) bare_request
   \<and> \<not> hasSetupEnv (example_env False)
   \<and> \<not> IsReadAuthenticated (example_env False) bare_request
   \<and> \<not> IsFullAuthenticated (example_env False) bare_request
   \<and> \<not> IsAdmin (example_env False) bare_request
   \<and> \<not> IsUser (example_env False) bare_request
   \<and> ScopeName (example_env False) bare_request = ''''"
proof -
  have h1: "getJwtToken (example_env False) = getJwtToken_spec example_parse"
    by (simp add: example_env_def)
  have h2: "map_of (Cookies bare_request) cookieName = None"
    by (simp add: bare_request_def)
  have h3: "\<not> hasAuthorizationHeader (example_env False) bare_request"
    by (simp add: example_env_def bare_request_def)
  have h4: "\<not> hasAPIQuery (example_env False) bare_request"
    by (simp add: example_env_def bare_request_def)
  have h5: "\<not> hasSetupEnv (example_env False)"
    by (simp add: example_env_def)
  from no_credentials_queries [OF h1 h2 h3 h4 h5] h1 h2 h3 h4 h5 show ?thesis
    by simp
qed

text \<open>
  C9. With the setup bypass active, a request with no API key, no Authorization-header
  credential and no decodable session token has the empty scope name, although
  \<open>IsReadAuthenticated\<close> and \<open>IsFullAuthenticated\<close> are true for it. \<open>ScopeName\<close>
  does not read the bypass at all: changing it leaves the scope name as it is.
\<close>

theorem setup_bypass_scope_empty:
  assumes "hasSetupEnv e" and "\<not> hasAPIQuery e r" and "\<not> hasAuthorizationHeader e r"
    and "getJwtToken e r = Inl err"
  shows "ScopeName e r = '''' \<and> IsReadAuthenticated e r \<and> IsFullAuthenticated e r
    \<and> ScopeName (e\<lparr>hasSetupEnv := b\<rparr>) r = ScopeName e r"
  using assms
  by (simp add: ScopeName_def IsReadAuthenticated_def IsFullAuthenticated_def)

theorem setup_bypass_scope_empty_witness:
  "hasSetupEnv (example_env True)
   \<and> \<not> hasAPIQuery (example_env True) (cookie_request ''garbage'')
   \<and> \<not> hasAuthorizationHeader (example_env True) (cookie_request ''garbage'')
   \<and> getJwtToken (example_env True) (cookie_request ''garbage'')
       = Inl (Error ''signature is invalid'')
   \<and> ScopeName (example_env True) (cookie_request ''garbage'') = ''''
   \<and> IsReadAuthenticated (example_env True) (cookie_request ''garbage'')
   \<and> IsFullAuthenticated (example_env True) (cookie_request ''garbage'')"
proof -
  have h1: "hasSetupEnv (example_env True)"
    by (simp add: example_env_def)
  have h2: "\<not> hasAPIQuery (example_env True) (cookie_request ''garbage'')"
    by (simp add: example_env_def cookie_request_def)
  have h3: "\<not> hasAuthorizationHeader (example_env True) (cookie_request ''garbage'')"
    by (simp add: example_env_def cookie_request_def)
  have h4: "getJwtToken (example_env True) (cookie_request ''garbage'')
      = Inl (Error ''signature is invalid'')"
    by (simp add: example_env_def cookie_request_def getJwtToken_spec_def example_parse_def)
  from setup_bypass_scope_empty [OF h1 h2 h3 h4] h1 h2 h3 h4 show ?thesis
    by simp
qed


section \<open>Properties of the server bootstrapper\<close>

lemma RunHTTPServer_enabled:
  assumes "\<not> GetBool e ''DISABLE_HTTP''"
  shows "RunHTTPServer e s =
    (let ip = GetString e ''SERVER_IP'';
         host = ip @ '':'' @ string_of_int (GetInt e ''SERVER_PORT'');
         tls = (FileExists e (Directory e @ ''/server.key'') \<and> FileExists e (Directory e @ ''/server.crt''));
         logged = (if tls then
                     [Call_Infoln ''server.cert and server.key was found in root directory! Starting in SSL mode.'',
                      Call_Infoln (''Statping Secure HTTPS Server running on https://'' @ ip @ '':'' @ string_of_int 443)]
                   else [Call_Infoln (''Statping HTTP Server running on http://'' @ host @ basePath e)]);
         before = calls s @ [Call_FileExists (Directory e @ ''/server.key''),
                             Call_FileExists (Directory e @ ''/server.crt'')] @ logged
                    @ [Call_Router, Call_resetCookies];
         ssl = (usingSSL s \<or> tls)
     in if GetBool e ''LETSENCRYPT_ENABLE'' then
          (startLetsEncryptServer e ip,
           s\<lparr>usingSSL := ssl, calls := before @ [Call_startLetsEncryptServer ip]\<rparr>)
        else if ssl then
          (startSSLServer e ip, s\<lparr>usingSSL := ssl, calls := before @ [Call_startSSLServer ip]\<rparr>)
        else
          (startServer e host, s\<lparr>usingSSL := ssl, calls := before @ [Call_startServer host]\<rparr>))"
  using assms
  by (simp add: RunHTTPServer_def record_call_def Let_def)

text \<open>
  C3. A start of the bootstrapper that is not disabled, from the state of a fresh
  process (\<open>usingSSL\<close> false), starts exactly one listener, and its mode is AutoTLS when
  \<open>LETSENCRYPT_ENABLE\<close> is set, whatever files exist; otherwise StaticTLS when both
  server.key and server.crt exist in the directory; otherwise Plain.
\<close>

theorem RunHTTPServer_transport_mode:
  assumes "\<not> GetBool e ''DISABLE_HTTP''" and "\<not> usingSSL s"
  shows "started_modes (calls (snd (RunHTTPServer e s))) =
    started_modes (calls s) @
      [if GetBool e ''LETSENCRYPT_ENABLE'' then AutoTLS
       else if FileExists e (Directory e @ ''/server.key'')
               \<and> FileExists e (Directory e @ ''/server.crt'') then StaticTLS
       else Plain]"
  using assms
  by (simp add: RunHTTPServer_enabled Let_def started_modes_append started_modes_Cons
      started_modes_Nil)

theorem RunHTTPServer_transport_mode_witness:
  "\<not> GetBool (example_server_env False True [''/app/server.key'', ''/app/server.crt'']) ''DISABLE_HTTP''
   \<and> \<not> usingSSL fresh_state
   \<and> started_modes (calls (snd (RunHTTPServer
        (example_server_env False True [''/app/server.key'', ''/app/server.crt'']) fresh_state)))
       = [AutoTLS]
   \<and> started_modes (calls (snd (RunHTTPServer
        (example_server_env False False [''/app/server.key'', ''/app/server.crt'']) fresh_state)))
       = [StaticTLS]
   \<and> started_modes (calls (snd (RunHTTPServer
        (example_server_env False False [''/app/server.key'']) fresh_state)))
       = [Plain]
   \<and> started_modes (calls (snd (RunHTTPServer
        (example_server_env False False []) fresh_state)))
       = [Plain]"
proof -
  have d: "\<not> GetBool (example_server_env False a fs) ''DISABLE_HTTP''" for a fs
    by (simp add: example_server_env_def)
  have u: "\<not> usingSSL fresh_state"
    by (simp add: fresh_state_def)
  have c: "started_modes (calls fresh_state) = []"
    by (simp add: fresh_state_def started_modes_Nil)
  from RunHTTPServer_transport_mode [OF d u, of True "[''/app/server.key'', ''/app/server.crt'']"]
  have m1: "started_modes (calls (snd (RunHTTPServer
        (example_server_env False True [''/app/server.key'', ''/app/server.crt'']) fresh_state)))
       = [AutoTLS]"
    by (simp add: c example_server_env_def)
  from RunHTTPServer_transport_mode [OF d u, of False "[''/app/server.key'', ''/app/server.crt'']"]
  have m2: "started_modes (calls (snd (RunHTTPServer
        (example_server_env False False [''/app/server.key'', ''/app/server.crt'']) fresh_state)))
       = [StaticTLS]"
    by (simp add: c example_server_env_def)
  from RunHTTPServer_transport_mode [OF d u, of False "[''/app/server.key'']"]
  have m3: "started_modes (calls (snd (RunHTTPServer
        (example_server_env False False [''/app/server.key'']) fresh_state)))
       = [Plain]"
    by (simp add: c example_server_env_def)
  from RunHTTPServer_transport_mode [OF d u, of False "[]"]
  have m4: "started_modes (calls (snd (RunHTTPServer
        (example_server_env False False []) fresh_state)))
       = [Plain]"
    by (simp add: c example_server_env_def)
  from d u m1 m2 m3 m4 show ?thesis
    by simp
qed


text \<open>
  C7. \<open>RunHTTPServer\<close> returns the error of the listener it started and no other:
  the result is not \<open>nil\<close> exactly when the bootstrapper is not disabled and the
  listener of the last call failed to bind or serve. With \<open>DISABLE_HTTP\<close> set the
  result is \<open>nil\<close> and no listener is started.
\<close>

theorem RunHTTPServer_error_iff_listener_fails:
  "(fst (RunHTTPServer e s) \<noteq> None) =
     (\<not> GetBool e ''DISABLE_HTTP''
      \<and> listener_error e (last (calls (snd (RunHTTPServer e s)))) \<noteq> None)
   \<and> (\<not> GetBool e ''DISABLE_HTTP'' \<longrightarrow>
        mode_of_call (last (calls (snd (RunHTTPServer e s)))) \<noteq> None
        \<and> fst (RunHTTPServer e s) = listener_error e (last (calls (snd (RunHTTPServer e s)))))
   \<and> (GetBool e ''DISABLE_HTTP'' \<longrightarrow>
        fst (RunHTTPServer e s) = None
        \<and> started_modes (calls (snd (RunHTTPServer e s))) = started_modes (calls s))"
proof (cases "GetBool e ''DISABLE_HTTP''")
  case True
  then show ?thesis
    by (simp add: RunHTTPServer_def)
next
  case False
  then show ?thesis
    by (simp add: RunHTTPServer_enabled Let_def)
qed

theorem RunHTTPServer_error_iff_listener_fails_witness:
  "GetBool (example_server_env True False []) ''DISABLE_HTTP''
   \<and> fst (RunHTTPServer (example_server_env True False []) fresh_state) = None
   \<and> started_modes (calls (snd (RunHTTPServer (example_server_env True False []) fresh_state))) = []
   \<and> \<not> GetBool (example_server_env False False []) ''DISABLE_HTTP''
   \<and> fst (RunHTTPServer (example_server_env False False []) fresh_state)
       = listener_error (example_server_env False False []) (Call_startServer ''0.0.0.0:8080'')
   \<and> fst (RunHTTPServer (example_server_env False False []) fresh_state)
       = Some (Error ''bind: address already in use'')
   \<and> fst (RunHTTPServer (example_server_env False True []) fresh_state) = None"
proof -
  have d: "GetBool (example_server_env True False []) ''DISABLE_HTTP''"
    by (simp add: example_server_env_def)
  have n: "\<not> GetBool (example_server_env False a []) ''DISABLE_HTTP''" for a
    by (simp add: example_server_env_def)
  have c: "started_modes (calls fresh_state) = []"
    by (simp add: fresh_state_def started_modes_Nil)
  have l: "last (calls (snd (RunHTTPServer (example_server_env False False []) fresh_state)))
      = Call_startServer ''0.0.0.0:8080''"
    by (simp add: RunHTTPServer_enabled [OF n] Let_def)
      (simp add: example_server_env_def fresh_state_def string_of_int_8080)
  have l': "last (calls (snd (RunHTTPServer (example_server_env False True []) fresh_state)))
      = Call_startLetsEncryptServer ''0.0.0.0''"
    by (simp add: RunHTTPServer_enabled [OF n] Let_def)
      (simp add: example_server_env_def)
  have f: "listener_error (example_server_env False False []) (Call_startServer ''0.0.0.0:8080'')
      = Some (Error ''bind: address already in use'')"
    by (simp add: example_server_env_def)
  have f': "listener_error (example_server_env False True []) (Call_startLetsEncryptServer ''0.0.0.0'')
      = None"
    by (simp add: example_server_env_def)
  from RunHTTPServer_error_iff_listener_fails [of "example_server_env True False []" fresh_state]
    RunHTTPServer_error_iff_listener_fails [of "example_server_env False False []" fresh_state]
    RunHTTPServer_error_iff_listener_fails [of "example_server_env False True []" fresh_state]
    d n c l l' f f'
  show ?thesis
    by simp
qed

text \<open>
  C8. \<open>StopHTTPServer\<close> logs that it is stopping the server and does nothing else:
  \<open>httpServer\<close> keeps the handle it held and no call besides the log line is made, so
  the listener is not released. Evaluated on a state in which a plain listener is
  serving on 0.0.0.0:8080.
\<close>

theorem StopHTTPServer_keeps_listener:
  "httpServer (StopHTTPServer err s) = httpServer s
   \<and> calls (StopHTTPServer err s) = calls s @ [Call_Infoln ''Stopping HTTP Server'']
   \<and> httpServer serving_state = Some \<lparr>Addr = ''0.0.0.0:8080''\<rparr>
   \<and> StopHTTPServer (Some (Error ''interrupt'')) serving_state =
       \<lparr>jwtKey = ''0f3a'', httpServer = Some \<lparr>Addr = ''0.0.0.0:8080''\<rparr>, usingSSL = False,
        calls = [Call_Router, Call_resetCookies, Call_startServer ''0.0.0.0:8080'',
                 Call_Infoln ''Stopping HTTP Server'']\<rparr>"
  by (simp add: StopHTTPServer_def record_call_def serving_state_def)

text \<open>
  C10. With \<open>DISABLE_HTTP\<close> set, \<open>RunHTTPServer\<close> returns \<open>nil\<close> and leaves the state
  as it was: \<open>usingSSL\<close> is not changed and no call is made, so the filesystem is not
  probed, the router is not rebuilt and the cookies are not reset.
\<close>

theorem RunHTTPServer_disabled_no_effect:
  assumes "GetBool e ''DISABLE_HTTP''"
  shows "RunHTTPServer e s = (None, s)"
  using assms
  by (simp add: RunHTTPServer_def)

theorem RunHTTPServer_disabled_no_effect_witness:
  "GetBool (example_server_env True True [''/app/server.key'', ''/app/server.crt'']) ''DISABLE_HTTP''
   \<and> RunHTTPServer (example_server_env True True [''/app/server.key'', ''/app/server.crt''])
        serving_state = (None, serving_state)
   \<and> calls (snd (RunHTTPServer (example_server_env False True [''/app/server.key'', ''/app/server.crt''])
        serving_state)) \<noteq> calls serving_state"
proof -
  have d: "GetBool (example_server_env True True [''/app/server.key'', ''/app/server.crt'']) ''DISABLE_HTTP''"
    by (simp add: example_server_env_def)
  have n: "\<not> GetBool (example_server_env False True [''/app/server.key'', ''/app/server.crt'']) ''DISABLE_HTTP''"
    by (simp add: example_server_env_def)
  have c: "calls (snd (RunHTTPServer (example_server_env False True [''/app/server.key'', ''/app/server.crt''])
        serving_state)) \<noteq> calls serving_state"
    by (simp add: RunHTTPServer_enabled [OF n] Let_def)
  from RunHTTPServer_disabled_no_effect [OF d, of serving_state] d c show ?thesis
    by simp
qed


end
